theory Spec2Isabelle
  imports Main "HOL-Library.AList"
begin

section \<open>Device types (internal/models/device\_type.go)\<close>

text \<open>
  A Go \<^verbatim>\<open>string\<close> is a sequence of bytes, and \<^verbatim>\<open>len\<close> of a string is its number
  of bytes.  The model uses \<^typ>\<open>string\<close> (a list of 8-bit \<^typ>\<open>char\<close>), so
  \<^const>\<open>length\<close> is Go's \<^verbatim>\<open>len\<close> and \<open>=\<close> is Go's byte-wise string equality.
  \<^verbatim>\<open>DeviceType\<close> is a named string type.
\<close>

type_synonym DeviceType = string

definition DeviceTypeCamera :: DeviceType where
  "DeviceTypeCamera = ''CAMERA''"

definition DeviceTypeThermostat :: DeviceType where
  "DeviceTypeThermostat = ''THERMOSTAT''"

definition DeviceTypeSmokeDetector :: DeviceType where
  "DeviceTypeSmokeDetector = ''SMOKE_DETECTOR''"

definition DeviceTypeMotionSensor :: DeviceType where
  "DeviceTypeMotionSensor = ''MOTION_SENSOR''"

definition DeviceTypeLock :: DeviceType where
  "DeviceTypeLock = ''LOCK''"

definition DeviceTypeUnknown :: DeviceType where
  "DeviceTypeUnknown = ''UNKNOWN''"

text \<open>The \<^verbatim>\<open>switch\<close> of \<^verbatim>\<open>DeviceType.IsValid\<close>: one case listing the six constants.\<close>

definition IsValid :: "DeviceType \<Rightarrow> bool" where
  "IsValid dt =
     (if dt = DeviceTypeCamera \<or> dt = DeviceTypeThermostat \<or> dt = DeviceTypeSmokeDetector
         \<or> dt = DeviceTypeMotionSensor \<or> dt = DeviceTypeLock \<or> dt = DeviceTypeUnknown
      then True
      else False)"

definition IsValidDeviceType :: "DeviceType \<Rightarrow> bool" where
  "IsValidDeviceType dt = IsValid dt"

record DeviceTypeInfo =
  ti_ID :: string
  ti_DisplayName :: string
  ti_Description :: string

definition GetAllDeviceTypes :: "DeviceTypeInfo list" where
  "GetAllDeviceTypes =
     [\<lparr>ti_ID = DeviceTypeCamera, ti_DisplayName = ''Camera'',
        ti_Description = ''Smart security camera''\<rparr>,
      \<lparr>ti_ID = DeviceTypeThermostat, ti_DisplayName = ''Thermostat'',
        ti_Description = ''Smart thermostat for controlling temperature''\<rparr>,
      \<lparr>ti_ID = DeviceTypeSmokeDetector, ti_DisplayName = ''Smoke Detector'',
        ti_Description = ''Detects smoke and fire hazards''\<rparr>,
      \<lparr>ti_ID = DeviceTypeMotionSensor, ti_DisplayName = ''Motion Sensor'',
        ti_Description = ''Detects movement in monitored areas''\<rparr>,
      \<lparr>ti_ID = DeviceTypeLock, ti_DisplayName = ''Lock'',
        ti_Description = ''Smart lock with remote access capabilities''\<rparr>,
      \<lparr>ti_ID = DeviceTypeUnknown, ti_DisplayName = ''Unknown'',
        ti_Description = ''Unknown device type''\<rparr>]"

section \<open>API models (internal/models)\<close>

text \<open>
  The structs of the models package.  A pointer field of \<^verbatim>\<open>DeviceUpdate\<close> is an
  \<^typ>\<open>'a option\<close>: \<^verbatim>\<open>nil\<close> is \<^const>\<open>None\<close>.  Identifiers are \<^verbatim>\<open>int64\<close>; no arithmetic
  is done on them, so they are \<^typ>\<open>int\<close>.  The three \<^verbatim>\<open>time.Time\<close> fields of a device
  are kept as the text of the stored timestamp.
\<close>

record Device =
  d_ID :: int
  d_OwnedBy :: string
  d_DeviceType :: DeviceType
  d_Name :: string
  d_Description :: string
  d_IsOnline :: bool
  d_LastAlarmTime :: string
  d_LastAlarmReason :: string
  d_CreatedAt :: string
  d_UpdatedAt :: string

record DeviceCreate =
  c_Name :: string
  c_Description :: string
  c_DeviceType :: DeviceType
  c_OwnedBy :: string

record DeviceUpdate =
  u_Name :: "string option"
  u_Description :: "string option"
  u_IsOnline :: "bool option"
  u_OwnedBy :: "string option"
  u_DeviceType :: "DeviceType option"
  u_LastAlarmReason :: "string option"

record AlarmRequest =
  a_Reason :: string
  a_Level :: string

section \<open>Formatting helpers of the Go library\<close>

text \<open>The verb \<^verbatim>\<open>%d\<close> of \<^verbatim>\<open>fmt.Sprintf\<close>: the decimal digits, with a minus sign below zero.\<close>

fun digits :: "nat \<Rightarrow> string" where
  "digits n =
     (if n < 10 then [''0123456789'' ! n]
      else digits (n div 10) @ [''0123456789'' ! (n mod 10)])"

declare digits.simps [simp del]

definition FormatInt :: "int \<Rightarrow> string" where
  "FormatInt i = (if i < 0 then CHR ''-'' # digits (nat (- i)) else digits (nat i))"

text \<open>\<^verbatim>\<open>strings.Join\<close>: the elements with the separator between neighbours.\<close>

fun Join :: "string list \<Rightarrow> string \<Rightarrow> string" where
  "Join [] sep = []"
| "Join [x] sep = x"
| "Join (x # y # ys) sep = x @ sep @ Join (y # ys) sep"

section \<open>Validation (internal/validation)\<close>

definition MaxDeviceNameLength :: nat where "MaxDeviceNameLength = 100"
definition MinDeviceNameLength :: nat where "MinDeviceNameLength = 1"
definition MaxOwnerLength :: nat where "MaxOwnerLength = 50"
definition MinOwnerLength :: nat where "MinOwnerLength = 1"
definition MaxDescriptionLength :: nat where "MaxDescriptionLength = 500"
definition MaxLastAlarmReasonLength :: nat where "MaxLastAlarmReasonLength = 200"
definition MinAlarmReasonLength :: nat where "MinAlarmReasonLength = 1"

text \<open>
  The regular expression \<^verbatim>\<open>^[a-zA-Z0-9]+$\<close>.  Without the multi-line flag Go's \<^verbatim>\<open>^\<close>
  and \<^verbatim>\<open>$\<close> match only at the two ends of the text, so a string matches when it is
  not empty and every byte lies in one of the three ranges of the class.
\<close>

definition alnum_class :: "char \<Rightarrow> bool" where
  "alnum_class c =
     (let n = (of_char c :: nat)
      in (97 \<le> n \<and> n \<le> 122) \<or> (65 \<le> n \<and> n \<le> 90) \<or> (48 \<le> n \<and> n \<le> 57))"

definition alphanumericPattern_MatchString :: "string \<Rightarrow> bool" where
  "alphanumericPattern_MatchString s = (s \<noteq> [] \<and> list_all alnum_class s)"

text \<open>
  \<^verbatim>\<open>ValidationErrors\<close> is a Go map from field name to message.  It is modelled as an
  association list that is only ever changed by \<^const>\<open>AList.update\<close>, which replaces
  the entry of a key that is already there: keys stay distinct, \<^verbatim>\<open>len(errors)\<close> is
  the length of the list, and \<^verbatim>\<open>errors[k]\<close> is \<^const>\<open>map_of\<close>.
\<close>

type_synonym ValidationErrors = "(string \<times> string) list"

definition IsValidDeviceName :: "string \<Rightarrow> bool" where
  "IsValidDeviceName name =
     (if length name < MinDeviceNameLength \<or> length name > MaxDeviceNameLength then False
      else alphanumericPattern_MatchString name)"

definition IsValidOwner :: "string \<Rightarrow> bool" where
  "IsValidOwner owner = (length owner \<ge> MinOwnerLength \<and> length owner \<le> MaxOwnerLength)"

definition name_message :: string where
  "name_message =
     ''must be between '' @ FormatInt (int MinDeviceNameLength) @ ''-''
       @ FormatInt (int MaxDeviceNameLength)
       @ '' characters and contain only alphanumeric characters (A-Z, a-z, 0-9)''"

definition device_type_message :: string where
  "device_type_message = ''must be one of: '' @ Join (map ti_ID GetAllDeviceTypes) '', ''"

definition owned_by_message :: string where
  "owned_by_message =
     ''must be between '' @ FormatInt (int MinOwnerLength) @ ''-''
       @ FormatInt (int MaxOwnerLength) @ '' characters''"

definition must_not_exceed :: "nat \<Rightarrow> string" where
  "must_not_exceed n = ''must not exceed '' @ FormatInt (int n) @ '' characters''"

definition ValidateDeviceCreate :: "DeviceCreate \<Rightarrow> bool \<times> ValidationErrors" where
  "ValidateDeviceCreate device =
     (let errors = [];
          errors = (if \<not> IsValidDeviceName (c_Name device)
                    then AList.update ''name'' name_message errors else errors);
          errors = (if \<not> IsValidDeviceType (c_DeviceType device)
                    then AList.update ''device_type'' device_type_message errors else errors);
          errors = (if \<not> IsValidOwner (c_OwnedBy device)
                    then AList.update ''owned_by'' owned_by_message errors else errors);
          errors = (if length (c_Description device) > MaxDescriptionLength
                    then AList.update ''description'' (must_not_exceed MaxDescriptionLength) errors
                    else errors)
      in (length errors = 0, errors))"

definition ValidateAlarmRequest :: "AlarmRequest \<Rightarrow> bool \<times> ValidationErrors" where
  "ValidateAlarmRequest alarm =
     (let errors = [];
          errors = (if length (a_Reason alarm) < MinAlarmReasonLength
                    then AList.update ''reason'' ''reason cannot be empty'' errors
                    else if length (a_Reason alarm) > MaxLastAlarmReasonLength
                    then AList.update ''reason''
                           (''reason '' @ must_not_exceed MaxLastAlarmReasonLength) errors
                    else errors);
          errors = (if a_Level alarm \<noteq> ''INFO'' \<and> a_Level alarm \<noteq> ''WARNING''
                       \<and> a_Level alarm \<noteq> ''CRITICAL''
                    then AList.update ''level'' ''level must be one of: INFO, WARNING, CRITICAL'' errors
                    else errors)
      in (length errors = 0, errors))"

text \<open>
  In \<^verbatim>\<open>ValidateDeviceUpdate\<close> each test is \<^verbatim>\<open>p != nil && !check(*p)\<close>: the pointer is
  dereferenced only when it is not nil.
\<close>

definition ValidateDeviceUpdate :: "DeviceUpdate \<Rightarrow> bool \<times> ValidationErrors" where
  "ValidateDeviceUpdate device =
     (let errors = [];
          errors = (case u_Name device of
                      Some name \<Rightarrow>
                        if \<not> IsValidDeviceName name
                        then AList.update ''name'' name_message errors else errors
                    | None \<Rightarrow> errors);
          errors = (case u_OwnedBy device of
                      Some owner \<Rightarrow>
                        if \<not> IsValidOwner owner
                        then AList.update ''owned_by'' owned_by_message errors else errors
                    | None \<Rightarrow> errors);
          errors = (case u_Description device of
                      Some description \<Rightarrow>
                        if length description > MaxDescriptionLength
                        then AList.update ''description''
                               (must_not_exceed MaxDescriptionLength) errors
                        else errors
                    | None \<Rightarrow> errors);
          errors = (case u_LastAlarmReason device of
                      Some reason \<Rightarrow>
                        if length reason > MaxLastAlarmReasonLength
                        then AList.update ''last_alarm_reason''
                               (must_not_exceed MaxLastAlarmReasonLength) errors
                        else errors
                    | None \<Rightarrow> errors);
          errors = (case u_DeviceType device of
                      Some dt \<Rightarrow>
                        if \<not> IsValidDeviceType dt
                        then AList.update ''device_type'' device_type_message errors else errors
                    | None \<Rightarrow> errors)
      in (length errors = 0, errors))"

text \<open>The set of field names that carry a message.\<close>

definition error_keys :: "ValidationErrors \<Rightarrow> string set" where
  "error_keys errors = fst ` set errors"

text \<open>
  The number of characters of a UTF-8 encoded string, which is what the specification
  means by character count: every byte starts a character except the continuation bytes
  \<^verbatim>\<open>0x80..0xBF\<close>.  On well-formed UTF-8 this is Go's \<^verbatim>\<open>utf8.RuneCountInString\<close>; the
  validation code never calls it.
\<close>

definition utf8_continuation :: "char \<Rightarrow> bool" where
  "utf8_continuation c = (let n = (of_char c :: nat) in 128 \<le> n \<and> n < 192)"

definition character_count :: "string \<Rightarrow> nat" where
  "character_count s = length (filter (\<lambda>c. \<not> utf8_continuation c) s)"

text \<open>Fifty copies of U+00E9 in UTF-8 (\<^verbatim>\<open>0xC3 0xA9\<close> each).\<close>

definition fifty_e_acute :: string where
  "fifty_e_acute = concat (replicate 50 [CHR 0xC3, CHR 0xA9])"

section \<open>The store (database/sql over the table of pkg/database/sqlite.go)\<close>

text \<open>
  Go's \<^verbatim>\<open>error\<close> values that occur: the sentinel \<^verbatim>\<open>sql.ErrNoRows\<close>, an error built by
  \<^verbatim>\<open>fmt.Errorf\<close> (identified by its message), and any other failure reported by the
  store (identified by its message).  A nil error is \<^const>\<open>None\<close>.
\<close>

datatype error = ErrNoRows | Errorf string | StoreError string

text \<open>
  The database: the table \<^verbatim>\<open>devices\<close> keyed by its primary key, the value the store
  gives for \<^verbatim>\<open>CURRENT_TIMESTAMP\<close>, and a script of outcomes for the statements still
  to come.  Every statement takes the head of the script: \<^term>\<open>Some msg\<close> makes the
  statement fail with that message and change nothing, \<^const>\<open>None\<close> (or an exhausted
  script) lets it run.  So every pattern of store failures is an input of the model.
\<close>

record sqldb =
  devices :: "int \<rightharpoonup> Device"
  now :: string
  script :: "string option list"

definition statement :: "sqldb \<Rightarrow> string option \<times> sqldb" where
  "statement db =
     (case script db of
        [] \<Rightarrow> (None, db)
      | outcome # rest \<Rightarrow> (outcome, db\<lparr>script := rest\<rparr>))"

text \<open>
  \<^verbatim>\<open>SELECT ... FROM devices WHERE id = ?\<close> through \<^verbatim>\<open>QueryRow(...).Scan(...)\<close>:
  \<^verbatim>\<open>sql.ErrNoRows\<close> when no row has the key.  A \<^verbatim>\<open>Scan\<close> that cannot convert a
  column is one of the failures the script can give.
\<close>

definition QueryRow_Scan :: "int \<Rightarrow> sqldb \<Rightarrow> (error + Device) \<times> sqldb" where
  "QueryRow_Scan ident db =
     (case statement db of
        (Some msg, db') \<Rightarrow> (Inl (StoreError msg), db')
      | (None, db') \<Rightarrow>
          (case devices db' ident of
             None \<Rightarrow> (Inl ErrNoRows, db')
           | Some row \<Rightarrow> (Inr row, db')))"

text \<open>
  \<^verbatim>\<open>UPDATE devices SET name = ?, description = ?, device_type = ?, is_online = ?,
  owned_by = ?, last_alarm_reason = ?, updated_at = CURRENT_TIMESTAMP WHERE id = ?\<close>.
  An \<^verbatim>\<open>UPDATE\<close> or \<^verbatim>\<open>DELETE\<close> whose \<^verbatim>\<open>WHERE\<close> selects no row changes nothing and is
  not an error.
\<close>

definition Exec_update_fields ::
  "string \<Rightarrow> string \<Rightarrow> DeviceType \<Rightarrow> bool \<Rightarrow> string \<Rightarrow> string \<Rightarrow> int \<Rightarrow> sqldb
     \<Rightarrow> error option \<times> sqldb" where
  "Exec_update_fields name description deviceType isOnline ownedBy lastAlarmReason ident db =
     (case statement db of
        (Some msg, db') \<Rightarrow> (Some (StoreError msg), db')
      | (None, db') \<Rightarrow>
          (case devices db' ident of
             None \<Rightarrow> (None, db')
           | Some row \<Rightarrow>
               (None, db'\<lparr>devices := (devices db')(ident \<mapsto>
                  row\<lparr>d_Name := name, d_Description := description,
                      d_DeviceType := deviceType, d_IsOnline := isOnline,
                      d_OwnedBy := ownedBy, d_LastAlarmReason := lastAlarmReason,
                      d_UpdatedAt := now db'\<rparr>)\<rparr>)))"

text \<open>\<^verbatim>\<open>DELETE FROM devices WHERE id = ?\<close>\<close>

definition Exec_delete :: "int \<Rightarrow> sqldb \<Rightarrow> error option \<times> sqldb" where
  "Exec_delete ident db =
     (case statement db of
        (Some msg, db') \<Rightarrow> (Some (StoreError msg), db')
      | (None, db') \<Rightarrow> (None, db'\<lparr>devices := (devices db')(ident := None)\<rparr>))"

text \<open>
  \<^verbatim>\<open>UPDATE devices SET last_alarm_reason = ?, last_alarm_time = CURRENT_TIMESTAMP,
  updated_at = CURRENT_TIMESTAMP WHERE id = ?\<close>
\<close>

definition Exec_update_alarm :: "string \<Rightarrow> int \<Rightarrow> sqldb \<Rightarrow> error option \<times> sqldb" where
  "Exec_update_alarm reason ident db =
     (case statement db of
        (Some msg, db') \<Rightarrow> (Some (StoreError msg), db')
      | (None, db') \<Rightarrow>
          (case devices db' ident of
             None \<Rightarrow> (None, db')
           | Some row \<Rightarrow>
               (None, db'\<lparr>devices := (devices db')(ident \<mapsto>
                  row\<lparr>d_LastAlarmReason := reason, d_LastAlarmTime := now db',
                      d_UpdatedAt := now db'\<rparr>)\<rparr>)))"

section \<open>The repository (internal/repository/device\_repository.go)\<close>

text \<open>
  A Go result \<^verbatim>\<open>(*models.Device, error)\<close> is a pair of options; every method also
  returns the database it leaves behind.
\<close>

definition DeviceRepositoryImpl_GetByID ::
  "int \<Rightarrow> sqldb \<Rightarrow> (Device option \<times> error option) \<times> sqldb" where
  "DeviceRepositoryImpl_GetByID ident db =
     (case QueryRow_Scan ident db of
        (Inl err, db') \<Rightarrow>
          (if err = ErrNoRows then ((None, None), db') else ((None, Some err), db'))
      | (Inr device, db') \<Rightarrow> ((Some device, None), db'))"

definition DeviceRepositoryImpl_Update ::
  "int \<Rightarrow> DeviceUpdate \<Rightarrow> sqldb \<Rightarrow> error option \<times> sqldb" where
  "DeviceRepositoryImpl_Update ident device db =
     (case DeviceRepositoryImpl_GetByID ident db of
        ((_, Some err), db') \<Rightarrow> (Some err, db')
      | ((None, None), db') \<Rightarrow> (Some ErrNoRows, db')
      | ((Some currentDevice, None), db') \<Rightarrow>
          (let name = d_Name currentDevice;
               description = d_Description currentDevice;
               isOnline = d_IsOnline currentDevice;
               ownedBy = d_OwnedBy currentDevice;
               deviceType = d_DeviceType currentDevice;
               lastAlarmReason = d_LastAlarmReason currentDevice;
               name = (case u_Name device of Some v \<Rightarrow> v | None \<Rightarrow> name);
               description = (case u_Description device of Some v \<Rightarrow> v | None \<Rightarrow> description);
               isOnline = (case u_IsOnline device of Some v \<Rightarrow> v | None \<Rightarrow> isOnline);
               ownedBy = (case u_OwnedBy device of Some v \<Rightarrow> v | None \<Rightarrow> ownedBy);
               deviceType = (case u_DeviceType device of Some v \<Rightarrow> v | None \<Rightarrow> deviceType);
               lastAlarmReason =
                 (case u_LastAlarmReason device of Some v \<Rightarrow> v | None \<Rightarrow> lastAlarmReason)
           in Exec_update_fields name description deviceType isOnline ownedBy
                lastAlarmReason ident db'))"

definition DeviceRepositoryImpl_Delete :: "int \<Rightarrow> sqldb \<Rightarrow> error option \<times> sqldb" where
  "DeviceRepositoryImpl_Delete ident db = Exec_delete ident db"

definition DeviceRepositoryImpl_TriggerAlarm ::
  "int \<Rightarrow> string \<Rightarrow> sqldb \<Rightarrow> error option \<times> sqldb" where
  "DeviceRepositoryImpl_TriggerAlarm ident reason db = Exec_update_alarm reason ident db"

section \<open>The repository interface and the service\<close>

text \<open>
  The interface \<^verbatim>\<open>DeviceRepository\<close> (the methods the service operations below call),
  over any state \<^typ>\<open>'r\<close> of the implementation behind it.
\<close>

record 'r DeviceRepository =
  repo_GetByID :: "int \<Rightarrow> 'r \<Rightarrow> (Device option \<times> error option) \<times> 'r"
  repo_Update :: "int \<Rightarrow> DeviceUpdate \<Rightarrow> 'r \<Rightarrow> error option \<times> 'r"
  repo_Delete :: "int \<Rightarrow> 'r \<Rightarrow> error option \<times> 'r"
  repo_TriggerAlarm :: "int \<Rightarrow> string \<Rightarrow> 'r \<Rightarrow> error option \<times> 'r"

definition NewDeviceRepository :: "sqldb DeviceRepository" where
  "NewDeviceRepository =
     \<lparr>repo_GetByID = DeviceRepositoryImpl_GetByID,
      repo_Update = DeviceRepositoryImpl_Update,
      repo_Delete = DeviceRepositoryImpl_Delete,
      repo_TriggerAlarm = DeviceRepositoryImpl_TriggerAlarm\<rparr>"

definition DeviceService_UpdateDevice ::
  "'r DeviceRepository \<Rightarrow> int \<Rightarrow> DeviceUpdate \<Rightarrow> 'r \<Rightarrow> error option \<times> 'r" where
  "DeviceService_UpdateDevice repo ident device r = repo_Update repo ident device r"

definition DeviceService_DeleteDevice ::
  "'r DeviceRepository \<Rightarrow> int \<Rightarrow> 'r \<Rightarrow> error option \<times> 'r" where
  "DeviceService_DeleteDevice repo ident r = repo_Delete repo ident r"

text \<open>\<^verbatim>\<open>fmt.Sprintf("[%s] %s", alarm.Level, alarm.Reason)\<close>\<close>

definition formattedReason :: "AlarmRequest \<Rightarrow> string" where
  "formattedReason alarm = ''['' @ a_Level alarm @ ''] '' @ a_Reason alarm"

definition DeviceService_TriggerAlarm ::
  "'r DeviceRepository \<Rightarrow> int \<Rightarrow> AlarmRequest \<Rightarrow> 'r \<Rightarrow> error option \<times> 'r" where
  "DeviceService_TriggerAlarm repo ident alarm r =
     (case repo_GetByID repo ident r of
        ((_, Some err), r') \<Rightarrow> (Some err, r')
      | ((None, None), r') \<Rightarrow>
          (Some (Errorf (''device not found with ID: '' @ FormatInt ident)), r')
      | ((Some device, None), r') \<Rightarrow>
          repo_TriggerAlarm repo ident (formattedReason alarm) r')"

section \<open>The recording repository of the service test\<close>

text \<open>\<^verbatim>\<open>MockDeviceRepo\<close>: it answers from its fields and records each call.\<close>

record MockDeviceRepo =
  getByIDCalled :: bool
  getByIDInput :: int
  getByIDOutput :: "Device option"
  getByIDError :: "error option"
  triggerAlarmCalled :: bool
  triggerAlarmID :: int
  triggerAlarmReason :: string
  triggerAlarmError :: "error option"

definition MockDeviceRepo_GetByID ::
  "int \<Rightarrow> MockDeviceRepo \<Rightarrow> (Device option \<times> error option) \<times> MockDeviceRepo" where
  "MockDeviceRepo_GetByID ident m =
     (let m = m\<lparr>getByIDCalled := True\<rparr>;
          m = m\<lparr>getByIDInput := ident\<rparr>
      in ((getByIDOutput m, getByIDError m), m))"

definition MockDeviceRepo_TriggerAlarm ::
  "int \<Rightarrow> string \<Rightarrow> MockDeviceRepo \<Rightarrow> error option \<times> MockDeviceRepo" where
  "MockDeviceRepo_TriggerAlarm ident reason m =
     (let m = m\<lparr>triggerAlarmCalled := True\<rparr>;
          m = m\<lparr>triggerAlarmID := ident\<rparr>;
          m = m\<lparr>triggerAlarmReason := reason\<rparr>
      in (triggerAlarmError m, m))"

definition mockRepo :: "MockDeviceRepo DeviceRepository" where
  "mockRepo =
     \<lparr>repo_GetByID = MockDeviceRepo_GetByID,
      repo_Update = (\<lambda>ident device m. (None, m)),
      repo_Delete = (\<lambda>ident m. (None, m)),
      repo_TriggerAlarm = MockDeviceRepo_TriggerAlarm\<rparr>"

text \<open>The mock as the test builds it: only the three answers are set.\<close>

definition newMock :: "Device option \<Rightarrow> error option \<Rightarrow> error option \<Rightarrow> MockDeviceRepo" where
  "newMock output getErr alarmErr =
     \<lparr>getByIDCalled = False, getByIDInput = 0, getByIDOutput = output,
      getByIDError = getErr, triggerAlarmCalled = False, triggerAlarmID = 0,
      triggerAlarmReason = [], triggerAlarmError = alarmErr\<rparr>"

section \<open>Example data\<close>

text \<open>
  The baseline of the merge example (name \<^verbatim>\<open>A\<close>, owner \<^verbatim>\<open>o1\<close>, offline), a store that
  holds it under key 1, an empty store, the patch that only sets the online flag, and the
  alarm request of the service test.
\<close>

definition device_A :: Device where
  "device_A =
     \<lparr>d_ID = 1, d_OwnedBy = ''o1'', d_DeviceType = ''CAMERA'', d_Name = ''A'',
      d_Description = ''first'', d_IsOnline = False, d_LastAlarmTime = ''2025-01-01 00:00:00'',
      d_LastAlarmReason = ''none'', d_CreatedAt = ''2025-01-01 00:00:00'',
      d_UpdatedAt = ''2025-01-01 00:00:00''\<rparr>"

definition one_device :: sqldb where
  "one_device = \<lparr>devices = [1 \<mapsto> device_A], now = ''2025-06-01 12:00:00'', script = []\<rparr>"

definition no_devices :: sqldb where
  "no_devices = \<lparr>devices = Map.empty, now = ''2025-06-01 12:00:00'', script = []\<rparr>"

definition online_patch :: DeviceUpdate where
  "online_patch =
     \<lparr>u_Name = None, u_Description = None, u_IsOnline = Some True,
      u_OwnedBy = None, u_DeviceType = None, u_LastAlarmReason = None\<rparr>"

definition smoke_alarm :: AlarmRequest where
  "smoke_alarm = \<lparr>a_Reason = ''Smoke detected'', a_Level = ''CRITICAL''\<rparr>"

text \<open>A patch that carries an invalid name and nothing else.\<close>

definition only_invalid_name :: DeviceUpdate where
  "only_invalid_name =
     \<lparr>u_Name = Some ''Invalid Name!'', u_Description = None, u_IsOnline = None,
      u_OwnedBy = None, u_DeviceType = None, u_LastAlarmReason = None\<rparr>"

section \<open>Device types: the closed enumeration\<close>

lemmas DeviceType_consts =
  DeviceTypeCamera_def DeviceTypeThermostat_def DeviceTypeSmokeDetector_def
  DeviceTypeMotionSensor_def DeviceTypeLock_def DeviceTypeUnknown_def

lemma IsValid_registry: "IsValid dt \<longleftrightarrow> dt \<in> set (map ti_ID GetAllDeviceTypes)"
  by (auto simp: IsValid_def GetAllDeviceTypes_def)

text \<open>
  Claim C9.  For every string, the device-type validity check is true exactly when the
  string is one of the six identifiers CAMERA, THERMOSTAT, SMOKE\_DETECTOR,
  MOTION\_SENSOR, LOCK, UNKNOWN.  The comparison is byte-exact: lower case, mixed case,
  the empty string and a padded identifier are all rejected.
\<close>

theorem C9_IsValid_exact:
  "(IsValidDeviceType dt \<longleftrightarrow>
      dt \<in> {''CAMERA'', ''THERMOSTAT'', ''SMOKE_DETECTOR'', ''MOTION_SENSOR'', ''LOCK'', ''UNKNOWN''})
   \<and> (IsValid dt \<longleftrightarrow> IsValidDeviceType dt)
   \<and> \<not> IsValid ''camera'' \<and> \<not> IsValid ''Camera'' \<and> \<not> IsValid ''''
   \<and> \<not> IsValid '' CAMERA'' \<and> \<not> IsValid ''CAMERA '' \<and> \<not> IsValid ''INVALID_TYPE''"
  by (auto simp: IsValidDeviceType_def IsValid_def DeviceType_consts)

section \<open>Validation: helper facts\<close>

lemmas limits =
  MaxDeviceNameLength_def MinDeviceNameLength_def MaxOwnerLength_def MinOwnerLength_def
  MaxDescriptionLength_def MaxLastAlarmReasonLength_def MinAlarmReasonLength_def

lemma error_keys_Nil: "error_keys [] = {}"
  by (simp add: error_keys_def)

lemma error_keys_update: "error_keys (AList.update k v al) = insert k (error_keys al)"
  by (simp add: error_keys_def AList.dom_update)

lemma error_keys_empty_iff: "error_keys errors = {} \<longleftrightarrow> length errors = 0"
  by (simp add: error_keys_def)

lemma name_message_text:
  "name_message =
     ''must be between 1-100 characters and contain only alphanumeric characters (A-Z, a-z, 0-9)''"
  by (simp add: name_message_def FormatInt_def digits.simps limits)

lemma device_type_message_text:
  "device_type_message =
     ''must be one of: CAMERA, THERMOSTAT, SMOKE_DETECTOR, MOTION_SENSOR, LOCK, UNKNOWN''"
  by (simp add: device_type_message_def GetAllDeviceTypes_def DeviceType_consts)

lemma owned_by_message_text: "owned_by_message = ''must be between 1-50 characters''"
  by (simp add: owned_by_message_def FormatInt_def digits.simps limits)

lemma must_not_exceed_text:
  "must_not_exceed MaxDescriptionLength = ''must not exceed 500 characters''"
  "must_not_exceed MaxLastAlarmReasonLength = ''must not exceed 200 characters''"
  by (simp_all add: must_not_exceed_def FormatInt_def digits.simps limits)

lemma IsValidDeviceName_iff:
  "IsValidDeviceName name \<longleftrightarrow>
     1 \<le> length name \<and> length name \<le> 100 \<and> list_all alnum_class name"
  by (cases name) (auto simp: IsValidDeviceName_def alphanumericPattern_MatchString_def limits)

lemma IsValidOwner_iff: "IsValidOwner owner \<longleftrightarrow> 1 \<le> length owner \<and> length owner \<le> 50"
  by (simp add: IsValidOwner_def limits)

lemma ValidateDeviceCreate_keys:
  "error_keys (snd (ValidateDeviceCreate d)) =
     (if \<not> IsValidDeviceName (c_Name d) then {''name''} else {})
   \<union> (if \<not> IsValidDeviceType (c_DeviceType d) then {''device_type''} else {})
   \<union> (if \<not> IsValidOwner (c_OwnedBy d) then {''owned_by''} else {})
   \<union> (if length (c_Description d) > MaxDescriptionLength then {''description''} else {})"
  by (auto simp: ValidateDeviceCreate_def Let_def error_keys_update error_keys_Nil
           simp del: AList.update.simps)

lemma ValidateDeviceCreate_ok:
  "fst (ValidateDeviceCreate d) \<longleftrightarrow> error_keys (snd (ValidateDeviceCreate d)) = {}"
  by (simp add: ValidateDeviceCreate_def Let_def error_keys_empty_iff)

lemma ValidateDeviceCreate_owned_by_message:
  "map_of (snd (ValidateDeviceCreate d)) ''owned_by'' =
     (if \<not> IsValidOwner (c_OwnedBy d) then Some owned_by_message else None)"
  by (simp add: ValidateDeviceCreate_def Let_def AList.update_conv' del: AList.update.simps)

lemma ValidateDeviceUpdate_keys:
  "error_keys (snd (ValidateDeviceUpdate p)) =
     (case u_Name p of
        Some v \<Rightarrow> if \<not> IsValidDeviceName v then {''name''} else {} | None \<Rightarrow> {})
   \<union> (case u_OwnedBy p of
        Some v \<Rightarrow> if \<not> IsValidOwner v then {''owned_by''} else {} | None \<Rightarrow> {})
   \<union> (case u_Description p of
        Some v \<Rightarrow> if length v > MaxDescriptionLength then {''description''} else {}
      | None \<Rightarrow> {})
   \<union> (case u_LastAlarmReason p of
        Some v \<Rightarrow> if length v > MaxLastAlarmReasonLength then {''last_alarm_reason''} else {}
      | None \<Rightarrow> {})
   \<union> (case u_DeviceType p of
        Some v \<Rightarrow> if \<not> IsValidDeviceType v then {''device_type''} else {} | None \<Rightarrow> {})"
  by (auto simp: ValidateDeviceUpdate_def Let_def error_keys_update error_keys_Nil
           simp del: AList.update.simps split: option.splits)

lemma ValidateDeviceUpdate_ok:
  "fst (ValidateDeviceUpdate p) \<longleftrightarrow> error_keys (snd (ValidateDeviceUpdate p)) = {}"
  by (simp add: ValidateDeviceUpdate_def Let_def error_keys_empty_iff)

lemma ValidateAlarmRequest_keys:
  "error_keys (snd (ValidateAlarmRequest a)) =
     (if length (a_Reason a) < 1 \<or> length (a_Reason a) > 200 then {''reason''} else {})
   \<union> (if a_Level a \<notin> {''INFO'', ''WARNING'', ''CRITICAL''} then {''level''} else {})"
  by (auto simp: ValidateAlarmRequest_def Let_def error_keys_update error_keys_Nil limits
           simp del: AList.update.simps)

lemma ValidateAlarmRequest_ok:
  "fst (ValidateAlarmRequest a) \<longleftrightarrow> error_keys (snd (ValidateAlarmRequest a)) = {}"
  by (simp add: ValidateAlarmRequest_def Let_def error_keys_empty_iff)

lemma ValidateAlarmRequest_distinct: "distinct (map fst (snd (ValidateAlarmRequest a)))"
  by (simp add: ValidateAlarmRequest_def Let_def AList.distinct_update del: AList.update.simps)

lemma ValidateAlarmRequest_reason_message:
  "map_of (snd (ValidateAlarmRequest a)) ''reason'' =
     (if length (a_Reason a) < 1 then Some ''reason cannot be empty''
      else if length (a_Reason a) > 200 then Some ''reason must not exceed 200 characters''
      else None)"
  by (simp add: ValidateAlarmRequest_def Let_def AList.update_conv' limits must_not_exceed_def
        FormatInt_def digits.simps del: AList.update.simps)

lemma ValidateAlarmRequest_level_message:
  "map_of (snd (ValidateAlarmRequest a)) ''level'' =
     (if a_Level a \<notin> {''INFO'', ''WARNING'', ''CRITICAL''}
      then Some ''level must be one of: INFO, WARNING, CRITICAL'' else None)"
  by (simp add: ValidateAlarmRequest_def Let_def AList.update_conv' del: AList.update.simps)

lemma length_concat_replicate: "length (concat (replicate n xs)) = n * length xs"
  by (induction n) simp_all

lemma character_count_append:
  "character_count (xs @ ys) = character_count xs + character_count ys"
  by (simp add: character_count_def)

lemma character_count_concat_replicate:
  "character_count (concat (replicate n xs)) = n * character_count xs"
  by (induction n) (simp_all add: character_count_append, simp add: character_count_def)

lemma character_count_ascii:
  "list_all (\<lambda>c. (of_char c :: nat) < 128) s \<Longrightarrow> character_count s = length s"
  by (induction s) (auto simp: character_count_def utf8_continuation_def)

lemma alnum_class_ascii: "alnum_class c \<Longrightarrow> (of_char c :: nat) < 128"
  by (auto simp: alnum_class_def Let_def)

text \<open>
  A name that passes the pattern has single-byte characters only, so for names the byte
  count that the code compares is also the character count.
\<close>

lemma IsValidDeviceName_character_count:
  assumes "list_all alnum_class name"
  shows "character_count name = length name"
proof -
  from assms have "list_all (\<lambda>c. (of_char c :: nat) < 128) name"
    by (induction name) (simp_all add: alnum_class_ascii)
  then show ?thesis
    by (rule character_count_ascii)
qed

section \<open>Validation: the claims\<close>

text \<open>
  Claim C1.  The claim says that every length check counts characters, so that an owner
  of exactly 50 characters always passes, multi-byte characters included.  The checks
  call \<^verbatim>\<open>len\<close>, which counts bytes.  The owner made of 50 copies of U+00E9 (two bytes
  each in UTF-8: \<^verbatim>\<open>0xC3 0xA9\<close>) has 50 characters and 100 bytes; \<^const>\<open>IsValidOwner\<close>
  rejects it, and \<^const>\<open>ValidateDeviceCreate\<close> reports it under \<^verbatim>\<open>owned_by\<close> with the
  message that the owner must be between 1-50 characters.
\<close>

theorem C1_owner_of_50_characters_rejected:
  "character_count fifty_e_acute = 50
   \<and> length fifty_e_acute = 100
   \<and> \<not> IsValidOwner fifty_e_acute
   \<and> map_of (snd (ValidateDeviceCreate
        \<lparr>c_Name = ''Device123'', c_Description = ''Test device'',
         c_DeviceType = DeviceTypeCamera, c_OwnedBy = fifty_e_acute\<rparr>)) ''owned_by''
       = Some ''must be between 1-50 characters''"
proof -
  have cc: "character_count [CHR 0xC3, CHR 0xA9] = 1"
    by (simp add: character_count_def utf8_continuation_def)
  have n: "character_count fifty_e_acute = 50"
    by (simp add: fifty_e_acute_def character_count_concat_replicate cc)
  have l: "length fifty_e_acute = 100"
    by (simp add: fifty_e_acute_def length_concat_replicate)
  have v: "\<not> IsValidOwner fifty_e_acute"
    by (simp add: IsValidOwner_iff l)
  have nm: "IsValidDeviceName ''Device123''"
    by (simp add: IsValidDeviceName_iff alnum_class_def)
  have m: "map_of (snd (ValidateDeviceCreate
        \<lparr>c_Name = ''Device123'', c_Description = ''Test device'',
         c_DeviceType = DeviceTypeCamera, c_OwnedBy = fifty_e_acute\<rparr>)) ''owned_by''
       = Some ''must be between 1-50 characters''"
    by (simp add: ValidateDeviceCreate_owned_by_message v owned_by_message_text)
  from n l v m show ?thesis by simp
qed

text \<open>
  Claim C4.  \<^const>\<open>ValidateDeviceCreate\<close> reports every failing field: the keys of the
  error map are the union of four independent contributions, one per check, so a key is
  there exactly when its own check fails, whatever the other checks do.  The first
  component is true exactly when the map is empty.  For name \<^verbatim>\<open>Device@123\<close>, an invalid
  device type, an empty owner and a description of 501 characters the result is false
  with the keys name, device\_type, owned\_by and description.
\<close>

theorem C4_ValidateDeviceCreate_accumulates:
  "error_keys (snd (ValidateDeviceCreate d)) =
       (if \<not> IsValidDeviceName (c_Name d) then {''name''} else {})
     \<union> (if \<not> IsValidDeviceType (c_DeviceType d) then {''device_type''} else {})
     \<union> (if \<not> IsValidOwner (c_OwnedBy d) then {''owned_by''} else {})
     \<union> (if length (c_Description d) > 500 then {''description''} else {})
   \<and> (fst (ValidateDeviceCreate d) \<longleftrightarrow> error_keys (snd (ValidateDeviceCreate d)) = {})
   \<and> (fst (ValidateDeviceCreate d) \<longleftrightarrow> length (snd (ValidateDeviceCreate d)) = 0)
   \<and> fst (ValidateDeviceCreate
        \<lparr>c_Name = ''Device@123'', c_Description = replicate 501 CHR ''a'',
         c_DeviceType = ''INVALID_TYPE'', c_OwnedBy = []\<rparr>) = False
   \<and> error_keys (snd (ValidateDeviceCreate
        \<lparr>c_Name = ''Device@123'', c_Description = replicate 501 CHR ''a'',
         c_DeviceType = ''INVALID_TYPE'', c_OwnedBy = []\<rparr>))
       = {''name'', ''device_type'', ''owned_by'', ''description''}"
proof -
  let ?bad = "\<lparr>c_Name = ''Device@123'', c_Description = replicate 501 CHR ''a'',
               c_DeviceType = ''INVALID_TYPE'', c_OwnedBy = []\<rparr>"
  have keys: "error_keys (snd (ValidateDeviceCreate d)) =
       (if \<not> IsValidDeviceName (c_Name d) then {''name''} else {})
     \<union> (if \<not> IsValidDeviceType (c_DeviceType d) then {''device_type''} else {})
     \<union> (if \<not> IsValidOwner (c_OwnedBy d) then {''owned_by''} else {})
     \<union> (if length (c_Description d) > 500 then {''description''} else {})"
    unfolding ValidateDeviceCreate_keys by (simp only: limits)
  have ok: "fst (ValidateDeviceCreate d) \<longleftrightarrow> error_keys (snd (ValidateDeviceCreate d)) = {}"
    by (rule ValidateDeviceCreate_ok)
  have ok_len: "fst (ValidateDeviceCreate d) \<longleftrightarrow> length (snd (ValidateDeviceCreate d)) = 0"
    by (simp add: ValidateDeviceCreate_def Let_def)
  have bad_name: "\<not> IsValidDeviceName ''Device@123''"
    by (simp add: IsValidDeviceName_iff alnum_class_def)
  have bad_type: "\<not> IsValidDeviceType ''INVALID_TYPE''"
    by (simp add: IsValidDeviceType_def IsValid_def DeviceType_consts)
  have bad_keys: "error_keys (snd (ValidateDeviceCreate ?bad))
       = {''name'', ''device_type'', ''owned_by'', ''description''}"
    by (simp add: ValidateDeviceCreate_keys bad_name bad_type IsValidOwner_iff limits
          insert_commute)
  have bad_ok: "fst (ValidateDeviceCreate ?bad) = False"
    unfolding ValidateDeviceCreate_ok bad_keys by simp
  show ?thesis
    by (rule conjI keys ok ok_len bad_ok bad_keys)+
qed

theorem C4_witness:
  "fst (ValidateDeviceCreate
     \<lparr>c_Name = ''Device@123'', c_Description = [], c_DeviceType = ''CAMERA'',
      c_OwnedBy = ''owner1''\<rparr>) = False
   \<and> error_keys (snd (ValidateDeviceCreate
     \<lparr>c_Name = ''Device@123'', c_Description = [], c_DeviceType = ''CAMERA'',
      c_OwnedBy = ''owner1''\<rparr>)) = {''name''}"
proof -
  let ?d = "\<lparr>c_Name = ''Device@123'', c_Description = [], c_DeviceType = ''CAMERA'',
             c_OwnedBy = ''owner1''\<rparr>"
  have bad_name: "\<not> IsValidDeviceName ''Device@123''"
    by (simp add: IsValidDeviceName_iff alnum_class_def)
  have good: "IsValidDeviceType ''CAMERA''" "IsValidOwner ''owner1''"
    by (simp_all add: IsValidDeviceType_def IsValid_def DeviceType_consts IsValidOwner_iff)
  note C = C4_ValidateDeviceCreate_accumulates [of ?d]
  from C have k: "error_keys (snd (ValidateDeviceCreate ?d)) = {''name''}"
    by (simp add: bad_name good)
  from C have "fst (ValidateDeviceCreate ?d) = False"
    unfolding k by simp
  with k show ?thesis by simp
qed

lemma ValidateDeviceUpdate_name_message:
  "map_of (snd (ValidateDeviceUpdate p)) ''name'' =
     (case u_Name p of
        Some v \<Rightarrow> if \<not> IsValidDeviceName v then Some name_message else None
      | None \<Rightarrow> None)"
  by (simp add: ValidateDeviceUpdate_def Let_def AList.update_conv'
           del: AList.update.simps split: option.splits)

lemma ValidateDeviceUpdate_owned_by_message:
  "map_of (snd (ValidateDeviceUpdate p)) ''owned_by'' =
     (case u_OwnedBy p of
        Some v \<Rightarrow> if \<not> IsValidOwner v then Some owned_by_message else None
      | None \<Rightarrow> None)"
  by (simp add: ValidateDeviceUpdate_def Let_def AList.update_conv'
           del: AList.update.simps split: option.splits)

lemma ValidateDeviceUpdate_description_message:
  "map_of (snd (ValidateDeviceUpdate p)) ''description'' =
     (case u_Description p of
        Some v \<Rightarrow>
          if length v > MaxDescriptionLength then Some (must_not_exceed MaxDescriptionLength)
          else None
      | None \<Rightarrow> None)"
  by (simp add: ValidateDeviceUpdate_def Let_def AList.update_conv'
           del: AList.update.simps split: option.splits)

lemma ValidateDeviceUpdate_device_type_message:
  "map_of (snd (ValidateDeviceUpdate p)) ''device_type'' =
     (case u_DeviceType p of
        Some v \<Rightarrow> if \<not> IsValidDeviceType v then Some device_type_message else None
      | None \<Rightarrow> None)"
  by (simp add: ValidateDeviceUpdate_def Let_def AList.update_conv'
           del: AList.update.simps split: option.splits)

lemma ValidateDeviceCreate_name_message:
  "map_of (snd (ValidateDeviceCreate d)) ''name'' =
     (if \<not> IsValidDeviceName (c_Name d) then Some name_message else None)"
  by (simp add: ValidateDeviceCreate_def Let_def AList.update_conv' del: AList.update.simps)

lemma ValidateDeviceCreate_description_message:
  "map_of (snd (ValidateDeviceCreate d)) ''description'' =
     (if length (c_Description d) > MaxDescriptionLength
      then Some (must_not_exceed MaxDescriptionLength) else None)"
  by (simp add: ValidateDeviceCreate_def Let_def AList.update_conv' del: AList.update.simps)

lemma ValidateDeviceCreate_device_type_message:
  "map_of (snd (ValidateDeviceCreate d)) ''device_type'' =
     (if \<not> IsValidDeviceType (c_DeviceType d) then Some device_type_message else None)"
  by (simp add: ValidateDeviceCreate_def Let_def AList.update_conv' del: AList.update.simps)

text \<open>
  Claim C5.  For every patch, \<^const>\<open>ValidateDeviceUpdate\<close> flags a field only when
  it is present and fails its check: the keys of the error map are the union of five
  contributions, each empty when its field is absent (\<^verbatim>\<open>is_online\<close> has no check at
  all).  For the four fields that creation also checks, a present value gets the entry
  that \<^const>\<open>ValidateDeviceCreate\<close> gives the same value.  A patch whose only
  present field is an invalid name has the keys \<open>{name}\<close>.
\<close>

theorem C5_ValidateDeviceUpdate_present_fields_only:
  "error_keys (snd (ValidateDeviceUpdate p)) =
       (case u_Name p of
          Some v \<Rightarrow> if \<not> IsValidDeviceName v then {''name''} else {} | None \<Rightarrow> {})
     \<union> (case u_OwnedBy p of
          Some v \<Rightarrow> if \<not> IsValidOwner v then {''owned_by''} else {} | None \<Rightarrow> {})
     \<union> (case u_Description p of
          Some v \<Rightarrow> if length v > 500 then {''description''} else {} | None \<Rightarrow> {})
     \<union> (case u_LastAlarmReason p of
          Some v \<Rightarrow> if length v > 200 then {''last_alarm_reason''} else {} | None \<Rightarrow> {})
     \<union> (case u_DeviceType p of
          Some v \<Rightarrow> if \<not> IsValidDeviceType v then {''device_type''} else {} | None \<Rightarrow> {})
   \<and> (u_Name p = Some (c_Name d) \<longrightarrow>
        map_of (snd (ValidateDeviceUpdate p)) ''name''
          = map_of (snd (ValidateDeviceCreate d)) ''name'')
   \<and> (u_OwnedBy p = Some (c_OwnedBy d) \<longrightarrow>
        map_of (snd (ValidateDeviceUpdate p)) ''owned_by''
          = map_of (snd (ValidateDeviceCreate d)) ''owned_by'')
   \<and> (u_Description p = Some (c_Description d) \<longrightarrow>
        map_of (snd (ValidateDeviceUpdate p)) ''description''
          = map_of (snd (ValidateDeviceCreate d)) ''description'')
   \<and> (u_DeviceType p = Some (c_DeviceType d) \<longrightarrow>
        map_of (snd (ValidateDeviceUpdate p)) ''device_type''
          = map_of (snd (ValidateDeviceCreate d)) ''device_type'')
   \<and> (fst (ValidateDeviceUpdate p) \<longleftrightarrow> error_keys (snd (ValidateDeviceUpdate p)) = {})"
proof -
  have keys: "error_keys (snd (ValidateDeviceUpdate p)) =
       (case u_Name p of
          Some v \<Rightarrow> if \<not> IsValidDeviceName v then {''name''} else {} | None \<Rightarrow> {})
     \<union> (case u_OwnedBy p of
          Some v \<Rightarrow> if \<not> IsValidOwner v then {''owned_by''} else {} | None \<Rightarrow> {})
     \<union> (case u_Description p of
          Some v \<Rightarrow> if length v > 500 then {''description''} else {} | None \<Rightarrow> {})
     \<union> (case u_LastAlarmReason p of
          Some v \<Rightarrow> if length v > 200 then {''last_alarm_reason''} else {} | None \<Rightarrow> {})
     \<union> (case u_DeviceType p of
          Some v \<Rightarrow> if \<not> IsValidDeviceType v then {''device_type''} else {} | None \<Rightarrow> {})"
    unfolding ValidateDeviceUpdate_keys by (simp only: limits)
  have name: "u_Name p = Some (c_Name d) \<longrightarrow>
        map_of (snd (ValidateDeviceUpdate p)) ''name''
          = map_of (snd (ValidateDeviceCreate d)) ''name''"
    by (simp add: ValidateDeviceUpdate_name_message ValidateDeviceCreate_name_message)
  have owner: "u_OwnedBy p = Some (c_OwnedBy d) \<longrightarrow>
        map_of (snd (ValidateDeviceUpdate p)) ''owned_by''
          = map_of (snd (ValidateDeviceCreate d)) ''owned_by''"
    by (simp add: ValidateDeviceUpdate_owned_by_message ValidateDeviceCreate_owned_by_message)
  have descr: "u_Description p = Some (c_Description d) \<longrightarrow>
        map_of (snd (ValidateDeviceUpdate p)) ''description''
          = map_of (snd (ValidateDeviceCreate d)) ''description''"
    by (simp add: ValidateDeviceUpdate_description_message
          ValidateDeviceCreate_description_message)
  have type: "u_DeviceType p = Some (c_DeviceType d) \<longrightarrow>
        map_of (snd (ValidateDeviceUpdate p)) ''device_type''
          = map_of (snd (ValidateDeviceCreate d)) ''device_type''"
    by (simp add: ValidateDeviceUpdate_device_type_message
          ValidateDeviceCreate_device_type_message)
  have ok: "fst (ValidateDeviceUpdate p) \<longleftrightarrow> error_keys (snd (ValidateDeviceUpdate p)) = {}"
    by (rule ValidateDeviceUpdate_ok)
  show ?thesis
    by (rule conjI keys name owner descr type ok)+
qed

theorem C5_witness:
  "error_keys (snd (ValidateDeviceUpdate only_invalid_name)) = {''name''}
   \<and> fst (ValidateDeviceUpdate only_invalid_name) = False
   \<and> map_of (snd (ValidateDeviceUpdate only_invalid_name)) ''name''
       = map_of (snd (ValidateDeviceCreate
           \<lparr>c_Name = ''Invalid Name!'', c_Description = [], c_DeviceType = ''CAMERA'',
            c_OwnedBy = ''owner1''\<rparr>)) ''name''"
proof -
  let ?d = "\<lparr>c_Name = ''Invalid Name!'', c_Description = [], c_DeviceType = ''CAMERA'',
             c_OwnedBy = ''owner1''\<rparr>"
  have bad_name: "\<not> IsValidDeviceName ''Invalid Name!''"
    by (simp add: IsValidDeviceName_iff alnum_class_def)
  have present: "u_Name only_invalid_name = Some (c_Name ?d)"
    by (simp add: only_invalid_name_def)
  note C = C5_ValidateDeviceUpdate_present_fields_only [of only_invalid_name ?d]
  from C [THEN conjunct1]
  have k: "error_keys (snd (ValidateDeviceUpdate only_invalid_name)) = {''name''}"
    by (simp add: only_invalid_name_def bad_name)
  from C [THEN conjunct2, THEN conjunct2, THEN conjunct2, THEN conjunct2, THEN conjunct2]
  have ok: "fst (ValidateDeviceUpdate only_invalid_name) = False"
    unfolding k by simp
  have m: "map_of (snd (ValidateDeviceUpdate only_invalid_name)) ''name''
       = map_of (snd (ValidateDeviceCreate ?d)) ''name''"
    by (rule C [THEN conjunct2, THEN conjunct1, THEN mp, OF present])
  from k ok m show ?thesis by (intro conjI)
qed

text \<open>
  Claim C6.  \<^const>\<open>ValidateAlarmRequest\<close> runs the reason check and the level check
  independently: the keys of the error map are the union of the two contributions.  The
  lengths are those measured by \<^verbatim>\<open>len\<close>.  A field has at most one message: the keys of
  the result are distinct, and the reason message is the one of the first rule that
  fails.  The level must be one of the three upper-case words.  For an empty reason with
  level \<^verbatim>\<open>INVALID_LEVEL\<close> the result is false with the keys reason and level.
\<close>

theorem C6_ValidateAlarmRequest_both_checks:
  "error_keys (snd (ValidateAlarmRequest a)) =
       (if length (a_Reason a) < 1 \<or> length (a_Reason a) > 200 then {''reason''} else {})
     \<union> (if a_Level a \<notin> {''INFO'', ''WARNING'', ''CRITICAL''} then {''level''} else {})
   \<and> distinct (map fst (snd (ValidateAlarmRequest a)))
   \<and> map_of (snd (ValidateAlarmRequest a)) ''reason'' =
       (if length (a_Reason a) < 1 then Some ''reason cannot be empty''
        else if length (a_Reason a) > 200 then Some ''reason must not exceed 200 characters''
        else None)
   \<and> map_of (snd (ValidateAlarmRequest a)) ''level'' =
       (if a_Level a \<notin> {''INFO'', ''WARNING'', ''CRITICAL''}
        then Some ''level must be one of: INFO, WARNING, CRITICAL'' else None)
   \<and> (fst (ValidateAlarmRequest a) \<longleftrightarrow> error_keys (snd (ValidateAlarmRequest a)) = {})
   \<and> fst (ValidateAlarmRequest \<lparr>a_Reason = [], a_Level = ''INVALID_LEVEL''\<rparr>) = False
   \<and> error_keys (snd (ValidateAlarmRequest \<lparr>a_Reason = [], a_Level = ''INVALID_LEVEL''\<rparr>))
       = {''reason'', ''level''}"
proof -
  let ?bad = "\<lparr>a_Reason = [], a_Level = ''INVALID_LEVEL''\<rparr>"
  have bad_keys: "error_keys (snd (ValidateAlarmRequest ?bad)) = {''reason'', ''level''}"
    by (simp add: ValidateAlarmRequest_keys insert_commute)
  have bad_ok: "fst (ValidateAlarmRequest ?bad) = False"
    unfolding ValidateAlarmRequest_ok bad_keys by simp
  show ?thesis
    by (rule conjI ValidateAlarmRequest_keys ValidateAlarmRequest_distinct
          ValidateAlarmRequest_reason_message ValidateAlarmRequest_level_message
          ValidateAlarmRequest_ok bad_ok bad_keys)+
qed

theorem C6_witness:
  "error_keys (snd (ValidateAlarmRequest \<lparr>a_Reason = ''Motion detected'', a_Level = ''critical''\<rparr>))
     = {''level''}
   \<and> fst (ValidateAlarmRequest \<lparr>a_Reason = ''Motion detected'', a_Level = ''critical''\<rparr>) = False
   \<and> fst (ValidateAlarmRequest \<lparr>a_Reason = ''Smoke detected'', a_Level = ''WARNING''\<rparr>) = True"
proof -
  let ?a = "\<lparr>a_Reason = ''Motion detected'', a_Level = ''critical''\<rparr>"
  let ?b = "\<lparr>a_Reason = ''Smoke detected'', a_Level = ''WARNING''\<rparr>"
  note A = C6_ValidateAlarmRequest_both_checks [of ?a, THEN conjunct1]
  note A_ok = C6_ValidateAlarmRequest_both_checks [of ?a, THEN conjunct2, THEN conjunct2,
    THEN conjunct2, THEN conjunct2, THEN conjunct1]
  note B = C6_ValidateAlarmRequest_both_checks [of ?b, THEN conjunct1]
  note B_ok = C6_ValidateAlarmRequest_both_checks [of ?b, THEN conjunct2, THEN conjunct2,
    THEN conjunct2, THEN conjunct2, THEN conjunct1]
  from A have k: "error_keys (snd (ValidateAlarmRequest ?a)) = {''level''}"
    by simp
  from A_ok have f: "fst (ValidateAlarmRequest ?a) = False"
    unfolding k by simp
  from B have "error_keys (snd (ValidateAlarmRequest ?b)) = {}"
    by simp
  with B_ok have t: "fst (ValidateAlarmRequest ?b) = True"
    by simp
  from k f t show ?thesis by (intro conjI)
qed

section \<open>Store, repository and service: helper facts\<close>

lemma statement_keeps:
  "devices (snd (statement db)) = devices db" "now (snd (statement db)) = now db"
  by (simp_all add: statement_def split: list.splits)

lemma GetByID_eq:
  "DeviceRepositoryImpl_GetByID ident db =
     (case fst (statement db) of
        Some msg \<Rightarrow> ((None, Some (StoreError msg)), snd (statement db))
      | None \<Rightarrow> ((devices db ident, None), snd (statement db)))"
proof (cases "statement db")
  case (Pair outcome db')
  then have "devices db' = devices db"
    using statement_keeps(1) [of db] by simp
  with Pair show ?thesis
    by (simp add: DeviceRepositoryImpl_GetByID_def QueryRow_Scan_def split: option.splits)
qed

lemma GetByID_yields:
  assumes "DeviceRepositoryImpl_GetByID ident db = ((found, err), db1)"
  shows "db1 = snd (statement db)"
    and "devices db1 = devices db"
    and "now db1 = now db"
    and "err = None \<Longrightarrow> found = devices db ident"
proof -
  from assms show db1: "db1 = snd (statement db)"
    by (auto simp: GetByID_eq split: option.splits)
  from db1 show "devices db1 = devices db" "now db1 = now db"
    by (simp_all add: statement_keeps)
  from assms show "err = None \<Longrightarrow> found = devices db ident"
    by (auto simp: GetByID_eq split: option.splits)
qed

lemma Exec_update_fields_result:
  "Exec_update_fields name description deviceType isOnline ownedBy lastAlarmReason ident db =
     (case fst (statement db) of
        Some msg \<Rightarrow> (Some (StoreError msg), snd (statement db))
      | None \<Rightarrow>
          (None,
           (case devices db ident of
              None \<Rightarrow> snd (statement db)
            | Some row \<Rightarrow>
                (snd (statement db))\<lparr>devices := (devices db)(ident \<mapsto>
                   row\<lparr>d_Name := name, d_Description := description,
                       d_DeviceType := deviceType, d_IsOnline := isOnline,
                       d_OwnedBy := ownedBy, d_LastAlarmReason := lastAlarmReason,
                       d_UpdatedAt := now db\<rparr>)\<rparr>)))"
proof (cases "statement db")
  case (Pair outcome db')
  then have "devices db' = devices db" "now db' = now db"
    using statement_keeps [of db] by simp_all
  with Pair show ?thesis
    by (auto simp: Exec_update_fields_def split: option.splits)
qed

lemma Exec_update_alarm_result:
  "Exec_update_alarm reason ident db =
     (case fst (statement db) of
        Some msg \<Rightarrow> (Some (StoreError msg), snd (statement db))
      | None \<Rightarrow>
          (None,
           (case devices db ident of
              None \<Rightarrow> snd (statement db)
            | Some row \<Rightarrow>
                (snd (statement db))\<lparr>devices := (devices db)(ident \<mapsto>
                   row\<lparr>d_LastAlarmReason := reason, d_LastAlarmTime := now db,
                       d_UpdatedAt := now db\<rparr>)\<rparr>)))"
proof (cases "statement db")
  case (Pair outcome db')
  then have "devices db' = devices db" "now db' = now db"
    using statement_keeps [of db] by simp_all
  with Pair show ?thesis
    by (auto simp: Exec_update_alarm_def split: option.splits)
qed

lemma Exec_delete_result:
  "Exec_delete ident db =
     (case fst (statement db) of
        Some msg \<Rightarrow> (Some (StoreError msg), snd (statement db))
      | None \<Rightarrow> (None, (snd (statement db))\<lparr>devices := (devices db)(ident := None)\<rparr>))"
proof (cases "statement db")
  case (Pair outcome db')
  then have "devices db' = devices db"
    using statement_keeps(1) [of db] by simp
  with Pair show ?thesis
    by (auto simp: Exec_delete_def split: option.splits)
qed

lemma Update_absent:
  "DeviceRepositoryImpl_GetByID ident db = ((None, None), db1) \<Longrightarrow>
     DeviceRepositoryImpl_Update ident patch db = (Some ErrNoRows, db1)"
  by (simp add: DeviceRepositoryImpl_Update_def)

lemma Update_present:
  "DeviceRepositoryImpl_GetByID ident db = ((Some baseline, None), db1) \<Longrightarrow>
     DeviceRepositoryImpl_Update ident patch db =
       Exec_update_fields
         (case u_Name patch of Some v \<Rightarrow> v | None \<Rightarrow> d_Name baseline)
         (case u_Description patch of Some v \<Rightarrow> v | None \<Rightarrow> d_Description baseline)
         (case u_DeviceType patch of Some v \<Rightarrow> v | None \<Rightarrow> d_DeviceType baseline)
         (case u_IsOnline patch of Some v \<Rightarrow> v | None \<Rightarrow> d_IsOnline baseline)
         (case u_OwnedBy patch of Some v \<Rightarrow> v | None \<Rightarrow> d_OwnedBy baseline)
         (case u_LastAlarmReason patch of Some v \<Rightarrow> v | None \<Rightarrow> d_LastAlarmReason baseline)
         ident db1"
  by (simp add: DeviceRepositoryImpl_Update_def Let_def)

lemma TriggerAlarm_absent:
  "repo_GetByID repo ident r = ((None, None), r1) \<Longrightarrow>
     DeviceService_TriggerAlarm repo ident alarm r =
       (Some (Errorf (''device not found with ID: '' @ FormatInt ident)), r1)"
  by (simp add: DeviceService_TriggerAlarm_def)

lemma TriggerAlarm_lookup_error:
  "repo_GetByID repo ident r = ((device, Some err), r1) \<Longrightarrow>
     DeviceService_TriggerAlarm repo ident alarm r = (Some err, r1)"
  by (simp add: DeviceService_TriggerAlarm_def split: option.splits)

lemma TriggerAlarm_present:
  "repo_GetByID repo ident r = ((Some device, None), r1) \<Longrightarrow>
     DeviceService_TriggerAlarm repo ident alarm r =
       repo_TriggerAlarm repo ident (''['' @ a_Level alarm @ ''] '' @ a_Reason alarm) r1"
  by (simp add: DeviceService_TriggerAlarm_def formattedReason_def)

lemma NewDeviceRepository_methods:
  "repo_GetByID NewDeviceRepository = DeviceRepositoryImpl_GetByID"
  "repo_Update NewDeviceRepository = DeviceRepositoryImpl_Update"
  "repo_Delete NewDeviceRepository = DeviceRepositoryImpl_Delete"
  "repo_TriggerAlarm NewDeviceRepository = DeviceRepositoryImpl_TriggerAlarm"
  by (simp_all add: NewDeviceRepository_def)

lemma mockRepo_methods:
  "repo_GetByID mockRepo = MockDeviceRepo_GetByID"
  "repo_TriggerAlarm mockRepo = MockDeviceRepo_TriggerAlarm"
  by (simp_all add: mockRepo_def)

lemma statement_empty_script: "script db = [] \<Longrightarrow> statement db = (None, db)"
  by (simp add: statement_def)

lemma FormatInt_99: "FormatInt 99 = ''99''"
  by (simp add: FormatInt_def digits.simps)

section \<open>Repository and service: the claims\<close>

text \<open>
  Claim C2, as the code has it.  The claim says that update, delete and alarm trigger all
  fail with a not-found condition on an identifier without a record.  Update and the
  alarm trigger do: when the lookup yields neither a device nor an error, Update returns
  \<^verbatim>\<open>sql.ErrNoRows\<close> and the service's TriggerAlarm returns the error
  \<^verbatim>\<open>device not found with ID: n\<close>, and neither writes.  Delete does no lookup: it runs
  its \<^verbatim>\<open>DELETE\<close> statement and returns what the store returns, which is no error
  unless the statement itself fails, and it leaves the table as it was.
\<close>

theorem C2_not_found_update_and_alarm_delete_succeeds:
  "(DeviceRepositoryImpl_GetByID ident db = ((None, None), db1) \<longrightarrow>
      DeviceRepositoryImpl_Update ident patch db = (Some ErrNoRows, db1)
      \<and> devices db1 = devices db)
   \<and> (repo_GetByID repo ident r = ((None, None), r1) \<longrightarrow>
      DeviceService_TriggerAlarm repo ident alarm r =
        (Some (Errorf (''device not found with ID: '' @ FormatInt ident)), r1))
   \<and> (devices db ident = None \<longrightarrow>
      fst (DeviceRepositoryImpl_Delete ident db) = map_option StoreError (fst (statement db))
      \<and> devices (snd (DeviceRepositoryImpl_Delete ident db)) = devices db)"
proof (intro conjI impI)
  assume g: "DeviceRepositoryImpl_GetByID ident db = ((None, None), db1)"
  then show "DeviceRepositoryImpl_Update ident patch db = (Some ErrNoRows, db1)"
    by (rule Update_absent)
  from g show "devices db1 = devices db"
    by (rule GetByID_yields(2))
next
  assume "repo_GetByID repo ident r = ((None, None), r1)"
  then show "DeviceService_TriggerAlarm repo ident alarm r =
        (Some (Errorf (''device not found with ID: '' @ FormatInt ident)), r1)"
    by (rule TriggerAlarm_absent)
next
  assume "devices db ident = None"
  show "fst (DeviceRepositoryImpl_Delete ident db) = map_option StoreError (fst (statement db))"
    by (simp add: DeviceRepositoryImpl_Delete_def Exec_delete_result split: option.splits)
next
  assume "devices db ident = None"
  then have "(devices db)(ident := None) = devices db"
    by (simp add: fun_upd_idem_iff)
  then show "devices (snd (DeviceRepositoryImpl_Delete ident db)) = devices db"
    by (simp add: DeviceRepositoryImpl_Delete_def Exec_delete_result statement_keeps
          split: option.splits)
qed

theorem C2_witness:
  "DeviceRepositoryImpl_GetByID 99 no_devices = ((None, None), no_devices)
   \<and> DeviceService_UpdateDevice NewDeviceRepository 99 online_patch no_devices
       = (Some ErrNoRows, no_devices)
   \<and> DeviceService_TriggerAlarm NewDeviceRepository 99 smoke_alarm no_devices
       = (Some (Errorf ''device not found with ID: 99''), no_devices)
   \<and> devices no_devices 99 = None
   \<and> fst (DeviceService_DeleteDevice NewDeviceRepository 99 no_devices) = None
   \<and> devices (snd (DeviceService_DeleteDevice NewDeviceRepository 99 no_devices))
       = devices no_devices"
proof -
  have st: "statement no_devices = (None, no_devices)"
    by (rule statement_empty_script) (simp add: no_devices_def)
  have row: "devices no_devices 99 = None"
    by (simp add: no_devices_def)
  have g: "DeviceRepositoryImpl_GetByID 99 no_devices = ((None, None), no_devices)"
    by (simp add: GetByID_eq st row)
  have g': "repo_GetByID NewDeviceRepository 99 no_devices = ((None, None), no_devices)"
    by (simp add: NewDeviceRepository_methods g)
  note C = C2_not_found_update_and_alarm_delete_succeeds
    [of 99 no_devices no_devices online_patch NewDeviceRepository no_devices no_devices
        smoke_alarm]
  from C g have u: "DeviceService_UpdateDevice NewDeviceRepository 99 online_patch no_devices
       = (Some ErrNoRows, no_devices)"
    by (simp add: DeviceService_UpdateDevice_def NewDeviceRepository_methods)
  from C g' have t: "DeviceService_TriggerAlarm NewDeviceRepository 99 smoke_alarm no_devices
       = (Some (Errorf ''device not found with ID: 99''), no_devices)"
    by (simp add: FormatInt_99)
  from C row have d: "fst (DeviceService_DeleteDevice NewDeviceRepository 99 no_devices) = None"
    "devices (snd (DeviceService_DeleteDevice NewDeviceRepository 99 no_devices))
       = devices no_devices"
    by (simp_all add: DeviceService_DeleteDevice_def NewDeviceRepository_methods st)
  from g u t row d show ?thesis by (intro conjI)
qed

text \<open>
  Claim C2 as stated fails for Delete: on the empty table, deleting identifier 99 returns
  no error, from the repository and through the service alike.
\<close>

theorem C2_counterexample:
  "devices no_devices 99 = None
   \<and> fst (DeviceRepositoryImpl_Delete 99 no_devices) = None
   \<and> fst (DeviceService_DeleteDevice NewDeviceRepository 99 no_devices) = None"
proof -
  have st: "fst (statement no_devices) = None"
    by (simp add: statement_def no_devices_def)
  have row: "devices no_devices 99 = None"
    by (simp add: no_devices_def)
  have d: "fst (DeviceRepositoryImpl_Delete 99 no_devices) = None"
    by (simp add: DeviceRepositoryImpl_Delete_def Exec_delete_result st)
  then have s: "fst (DeviceService_DeleteDevice NewDeviceRepository 99 no_devices) = None"
    by (simp add: DeviceService_DeleteDevice_def NewDeviceRepository_methods)
  from row d s show ?thesis by (intro conjI)
qed

text \<open>
  Claim C3.  When the lookup of Update yields a baseline and the update succeeds, the
  stored row has, for each of name, description, online flag, owner, device type and
  last-alarm reason, the value of the patch when the patch carries one and the value of
  the baseline otherwise; the identifier, the alarm time and the creation time are those
  of the baseline, and every other row is untouched.
\<close>

theorem C3_Update_merges_field_by_field:
  assumes "DeviceRepositoryImpl_GetByID ident db = ((Some baseline, None), db1)"
    and "DeviceRepositoryImpl_Update ident patch db = (None, db2)"
  shows "map_option d_Name (devices db2 ident)
           = Some (case u_Name patch of Some v \<Rightarrow> v | None \<Rightarrow> d_Name baseline)
     \<and> map_option d_Description (devices db2 ident)
           = Some (case u_Description patch of Some v \<Rightarrow> v | None \<Rightarrow> d_Description baseline)
     \<and> map_option d_IsOnline (devices db2 ident)
           = Some (case u_IsOnline patch of Some v \<Rightarrow> v | None \<Rightarrow> d_IsOnline baseline)
     \<and> map_option d_OwnedBy (devices db2 ident)
           = Some (case u_OwnedBy patch of Some v \<Rightarrow> v | None \<Rightarrow> d_OwnedBy baseline)
     \<and> map_option d_DeviceType (devices db2 ident)
           = Some (case u_DeviceType patch of Some v \<Rightarrow> v | None \<Rightarrow> d_DeviceType baseline)
     \<and> map_option d_LastAlarmReason (devices db2 ident)
           = Some (case u_LastAlarmReason patch of
                     Some v \<Rightarrow> v | None \<Rightarrow> d_LastAlarmReason baseline)
     \<and> map_option d_ID (devices db2 ident) = Some (d_ID baseline)
     \<and> map_option d_LastAlarmTime (devices db2 ident) = Some (d_LastAlarmTime baseline)
     \<and> map_option d_CreatedAt (devices db2 ident) = Some (d_CreatedAt baseline)
     \<and> (\<forall>other. other \<noteq> ident \<longrightarrow> devices db2 other = devices db other)"
proof -
  from assms(1) have row: "devices db1 ident = Some baseline"
    using GetByID_yields(2,4) [OF assms(1)] by simp
  from assms(1) have same: "devices db1 = devices db"
    by (rule GetByID_yields(2))
  from assms(2) have ex: "Exec_update_fields
         (case u_Name patch of Some v \<Rightarrow> v | None \<Rightarrow> d_Name baseline)
         (case u_Description patch of Some v \<Rightarrow> v | None \<Rightarrow> d_Description baseline)
         (case u_DeviceType patch of Some v \<Rightarrow> v | None \<Rightarrow> d_DeviceType baseline)
         (case u_IsOnline patch of Some v \<Rightarrow> v | None \<Rightarrow> d_IsOnline baseline)
         (case u_OwnedBy patch of Some v \<Rightarrow> v | None \<Rightarrow> d_OwnedBy baseline)
         (case u_LastAlarmReason patch of Some v \<Rightarrow> v | None \<Rightarrow> d_LastAlarmReason baseline)
         ident db1 = (None, db2)"
    unfolding Update_present [OF assms(1)] .
  then have db2: "devices db2 = (devices db1)(ident \<mapsto>
      baseline\<lparr>d_Name := (case u_Name patch of Some v \<Rightarrow> v | None \<Rightarrow> d_Name baseline),
        d_Description :=
          (case u_Description patch of Some v \<Rightarrow> v | None \<Rightarrow> d_Description baseline),
        d_DeviceType :=
          (case u_DeviceType patch of Some v \<Rightarrow> v | None \<Rightarrow> d_DeviceType baseline),
        d_IsOnline := (case u_IsOnline patch of Some v \<Rightarrow> v | None \<Rightarrow> d_IsOnline baseline),
        d_OwnedBy := (case u_OwnedBy patch of Some v \<Rightarrow> v | None \<Rightarrow> d_OwnedBy baseline),
        d_LastAlarmReason :=
          (case u_LastAlarmReason patch of Some v \<Rightarrow> v | None \<Rightarrow> d_LastAlarmReason baseline),
        d_UpdatedAt := now db1\<rparr>)"
    by (auto simp: Exec_update_fields_result row split: option.splits)
  show ?thesis
    unfolding db2 same by simp
qed

theorem C3_witness:
  "DeviceRepositoryImpl_GetByID 1 one_device = ((Some device_A, None), one_device)
   \<and> fst (DeviceRepositoryImpl_Update 1 online_patch one_device) = None
   \<and> map_option d_Name (devices (snd (DeviceRepositoryImpl_Update 1 online_patch one_device)) 1)
       = Some ''A''
   \<and> map_option d_OwnedBy (devices (snd (DeviceRepositoryImpl_Update 1 online_patch one_device)) 1)
       = Some ''o1''
   \<and> map_option d_IsOnline (devices (snd (DeviceRepositoryImpl_Update 1 online_patch one_device)) 1)
       = Some True
   \<and> map_option d_Description
        (devices (snd (DeviceRepositoryImpl_Update 1 online_patch one_device)) 1)
       = Some ''first''
   \<and> map_option d_DeviceType
        (devices (snd (DeviceRepositoryImpl_Update 1 online_patch one_device)) 1)
       = Some ''CAMERA''
   \<and> map_option d_LastAlarmReason
        (devices (snd (DeviceRepositoryImpl_Update 1 online_patch one_device)) 1)
       = Some ''none''"
proof -
  let ?db2 = "snd (DeviceRepositoryImpl_Update 1 online_patch one_device)"
  have st: "statement one_device = (None, one_device)"
    by (rule statement_empty_script) (simp add: one_device_def)
  have row: "devices one_device 1 = Some device_A"
    by (simp add: one_device_def)
  have g: "DeviceRepositoryImpl_GetByID 1 one_device = ((Some device_A, None), one_device)"
    by (simp add: GetByID_eq st row)
  have ok: "fst (DeviceRepositoryImpl_Update 1 online_patch one_device) = None"
    by (simp add: Update_present [OF g] Exec_update_fields_result st)
  then have u: "DeviceRepositoryImpl_Update 1 online_patch one_device = (None, ?db2)"
    by (simp add: prod_eq_iff)
  note C = C3_Update_merges_field_by_field [OF g u]
  have fields: "map_option d_Name (devices ?db2 1) = Some ''A''"
    "map_option d_OwnedBy (devices ?db2 1) = Some ''o1''"
    "map_option d_IsOnline (devices ?db2 1) = Some True"
    "map_option d_Description (devices ?db2 1) = Some ''first''"
    "map_option d_DeviceType (devices ?db2 1) = Some ''CAMERA''"
    "map_option d_LastAlarmReason (devices ?db2 1) = Some ''none''"
    using C by (simp_all add: online_patch_def device_A_def)
  from g ok fields show ?thesis by (intro conjI)
qed

text \<open>
  Claim C7.  When the lookup yields a device, the service's TriggerAlarm calls the
  repository's alarm mutation with the same identifier and with the reason
  \<^verbatim>\<open>[LEVEL] reason\<close>, built from the level and the reason of the request whatever the
  level is, and returns its result.  Over the SQL repository a successful call leaves
  that text in the row as the last-alarm reason, with the alarm time set to the store's
  current time.  The request \<^verbatim>\<open>{Smoke detected, CRITICAL}\<close> gives
  \<^verbatim>\<open>[CRITICAL] Smoke detected\<close>.
\<close>

theorem C7_TriggerAlarm_persists_formatted_reason:
  "(repo_GetByID repo ident r = ((Some device, None), r1) \<longrightarrow>
      DeviceService_TriggerAlarm repo ident alarm r =
        repo_TriggerAlarm repo ident (''['' @ a_Level alarm @ ''] '' @ a_Reason alarm) r1)
   \<and> (DeviceRepositoryImpl_GetByID ident db = ((Some device, None), db1)
        \<and> DeviceService_TriggerAlarm NewDeviceRepository ident alarm db = (None, db2) \<longrightarrow>
      map_option d_LastAlarmReason (devices db2 ident)
        = Some (''['' @ a_Level alarm @ ''] '' @ a_Reason alarm)
      \<and> map_option d_LastAlarmTime (devices db2 ident) = Some (now db))
   \<and> formattedReason \<lparr>a_Reason = ''Smoke detected'', a_Level = ''CRITICAL''\<rparr>
        = ''[CRITICAL] Smoke detected''"
proof (intro conjI impI)
  assume "repo_GetByID repo ident r = ((Some device, None), r1)"
  then show "DeviceService_TriggerAlarm repo ident alarm r =
        repo_TriggerAlarm repo ident (''['' @ a_Level alarm @ ''] '' @ a_Reason alarm) r1"
    by (rule TriggerAlarm_present)
next
  show "formattedReason \<lparr>a_Reason = ''Smoke detected'', a_Level = ''CRITICAL''\<rparr>
        = ''[CRITICAL] Smoke detected''"
    by (simp add: formattedReason_def)
next
  assume a: "DeviceRepositoryImpl_GetByID ident db = ((Some device, None), db1)
        \<and> DeviceService_TriggerAlarm NewDeviceRepository ident alarm db = (None, db2)"
  then have g: "DeviceRepositoryImpl_GetByID ident db = ((Some device, None), db1)"
    and t: "DeviceService_TriggerAlarm NewDeviceRepository ident alarm db = (None, db2)"
    by simp_all
  from g have g': "repo_GetByID NewDeviceRepository ident db = ((Some device, None), db1)"
    by (simp add: NewDeviceRepository_methods)
  have row: "devices db1 ident = Some device" and same: "now db1 = now db"
    using GetByID_yields(2,3,4) [OF g] by simp_all
  from t have "Exec_update_alarm (''['' @ a_Level alarm @ ''] '' @ a_Reason alarm) ident db1
      = (None, db2)"
    unfolding TriggerAlarm_present [OF g']
    by (simp add: NewDeviceRepository_methods DeviceRepositoryImpl_TriggerAlarm_def)
  then have db2: "devices db2 = (devices db1)(ident \<mapsto>
      device\<lparr>d_LastAlarmReason := ''['' @ a_Level alarm @ ''] '' @ a_Reason alarm,
        d_LastAlarmTime := now db1, d_UpdatedAt := now db1\<rparr>)"
    by (auto simp: Exec_update_alarm_result row split: option.splits)
  show "map_option d_LastAlarmReason (devices db2 ident)
        = Some (''['' @ a_Level alarm @ ''] '' @ a_Reason alarm)"
    unfolding db2 by simp
  show "map_option d_LastAlarmTime (devices db2 ident) = Some (now db)"
    unfolding db2 same by simp
qed

theorem C7_witness:
  "fst (DeviceService_TriggerAlarm mockRepo 1 smoke_alarm (newMock (Some device_A) None None))
     = None
   \<and> triggerAlarmCalled
        (snd (DeviceService_TriggerAlarm mockRepo 1 smoke_alarm (newMock (Some device_A) None None)))
   \<and> triggerAlarmID
        (snd (DeviceService_TriggerAlarm mockRepo 1 smoke_alarm (newMock (Some device_A) None None)))
       = 1
   \<and> triggerAlarmReason
        (snd (DeviceService_TriggerAlarm mockRepo 1 smoke_alarm (newMock (Some device_A) None None)))
       = ''[CRITICAL] Smoke detected''
   \<and> fst (DeviceService_TriggerAlarm NewDeviceRepository 1 smoke_alarm one_device) = None
   \<and> map_option d_LastAlarmReason
        (devices (snd (DeviceService_TriggerAlarm NewDeviceRepository 1 smoke_alarm one_device)) 1)
       = Some ''[CRITICAL] Smoke detected''
   \<and> map_option d_LastAlarmTime
        (devices (snd (DeviceService_TriggerAlarm NewDeviceRepository 1 smoke_alarm one_device)) 1)
       = Some ''2025-06-01 12:00:00''"
proof -
  let ?m = "newMock (Some device_A) None None"
  let ?m1 = "?m\<lparr>getByIDCalled := True, getByIDInput := 1\<rparr>"
  let ?db2 = "snd (DeviceService_TriggerAlarm NewDeviceRepository 1 smoke_alarm one_device)"
  have mg: "repo_GetByID mockRepo 1 ?m = ((Some device_A, None), ?m1)"
    by (simp add: mockRepo_methods MockDeviceRepo_GetByID_def newMock_def)
  have mock: "DeviceService_TriggerAlarm mockRepo 1 smoke_alarm ?m =
      MockDeviceRepo_TriggerAlarm 1 ''[CRITICAL] Smoke detected'' ?m1"
    using C7_TriggerAlarm_persists_formatted_reason
            [THEN conjunct1, THEN mp, OF mg, of smoke_alarm]
    by (simp add: mockRepo_methods smoke_alarm_def)
  have m: "fst (DeviceService_TriggerAlarm mockRepo 1 smoke_alarm ?m) = None"
    "triggerAlarmCalled (snd (DeviceService_TriggerAlarm mockRepo 1 smoke_alarm ?m))"
    "triggerAlarmID (snd (DeviceService_TriggerAlarm mockRepo 1 smoke_alarm ?m)) = 1"
    "triggerAlarmReason (snd (DeviceService_TriggerAlarm mockRepo 1 smoke_alarm ?m))
       = ''[CRITICAL] Smoke detected''"
    unfolding mock by (simp_all add: MockDeviceRepo_TriggerAlarm_def newMock_def)
  have st: "statement one_device = (None, one_device)"
    by (rule statement_empty_script) (simp add: one_device_def)
  have row: "devices one_device 1 = Some device_A"
    by (simp add: one_device_def)
  have g: "DeviceRepositoryImpl_GetByID 1 one_device = ((Some device_A, None), one_device)"
    by (simp add: GetByID_eq st row)
  then have g': "repo_GetByID NewDeviceRepository 1 one_device
      = ((Some device_A, None), one_device)"
    by (simp add: NewDeviceRepository_methods)
  have ok: "fst (DeviceService_TriggerAlarm NewDeviceRepository 1 smoke_alarm one_device) = None"
    by (simp add: TriggerAlarm_present [OF g'] NewDeviceRepository_methods
          DeviceRepositoryImpl_TriggerAlarm_def Exec_update_alarm_result st)
  then have t: "DeviceService_TriggerAlarm NewDeviceRepository 1 smoke_alarm one_device
      = (None, ?db2)"
    by (simp add: prod_eq_iff)
  have s: "map_option d_LastAlarmReason (devices ?db2 1) = Some ''[CRITICAL] Smoke detected''"
    "map_option d_LastAlarmTime (devices ?db2 1) = Some ''2025-06-01 12:00:00''"
    using C7_TriggerAlarm_persists_formatted_reason
            [THEN conjunct2, THEN conjunct1, THEN mp, OF conjI, OF g t]
    by (simp_all add: smoke_alarm_def one_device_def)
  from m ok s show ?thesis by (intro conjI)
qed

text \<open>
  Claim C8.  When the lookup yields neither a device nor an error, the service's
  TriggerAlarm returns the error \<^verbatim>\<open>device not found with ID: n\<close> and hands back the
  repository exactly as the lookup left it.  The repository's alarm mutation is not
  called: the outcome is the same whatever that method is replaced by, the recording
  repository of the test keeps its \<^verbatim>\<open>triggerAlarmCalled\<close> flag, and over the SQL
  repository the table is unchanged.
\<close>

theorem C8_TriggerAlarm_absent_device_no_write:
  "(repo_GetByID repo ident r = ((None, None), r1) \<longrightarrow>
      DeviceService_TriggerAlarm repo ident alarm r =
        (Some (Errorf (''device not found with ID: '' @ FormatInt ident)), r1)
      \<and> DeviceService_TriggerAlarm (repo\<lparr>repo_TriggerAlarm := mutation\<rparr>) ident alarm r =
          DeviceService_TriggerAlarm repo ident alarm r)
   \<and> (getByIDOutput m = None \<and> getByIDError m = None \<longrightarrow>
      fst (DeviceService_TriggerAlarm mockRepo ident alarm m) =
        Some (Errorf (''device not found with ID: '' @ FormatInt ident))
      \<and> triggerAlarmCalled (snd (DeviceService_TriggerAlarm mockRepo ident alarm m))
          = triggerAlarmCalled m)
   \<and> (DeviceRepositoryImpl_GetByID ident db = ((None, None), db1) \<longrightarrow>
      devices (snd (DeviceService_TriggerAlarm NewDeviceRepository ident alarm db))
        = devices db)"
proof (intro conjI impI)
  assume g: "repo_GetByID repo ident r = ((None, None), r1)"
  then show "DeviceService_TriggerAlarm repo ident alarm r =
        (Some (Errorf (''device not found with ID: '' @ FormatInt ident)), r1)"
    by (rule TriggerAlarm_absent)
  from g have "repo_GetByID (repo\<lparr>repo_TriggerAlarm := mutation\<rparr>) ident r = ((None, None), r1)"
    by simp
  then show "DeviceService_TriggerAlarm (repo\<lparr>repo_TriggerAlarm := mutation\<rparr>) ident alarm r =
          DeviceService_TriggerAlarm repo ident alarm r"
    by (simp add: TriggerAlarm_absent g)
next
  assume a: "getByIDOutput m = None \<and> getByIDError m = None"
  then have g: "repo_GetByID mockRepo ident m
      = ((None, None), m\<lparr>getByIDCalled := True, getByIDInput := ident\<rparr>)"
    by (simp add: mockRepo_methods MockDeviceRepo_GetByID_def)
  show "fst (DeviceService_TriggerAlarm mockRepo ident alarm m) =
        Some (Errorf (''device not found with ID: '' @ FormatInt ident))"
    by (simp add: TriggerAlarm_absent [OF g])
  show "triggerAlarmCalled (snd (DeviceService_TriggerAlarm mockRepo ident alarm m))
          = triggerAlarmCalled m"
    by (simp add: TriggerAlarm_absent [OF g])
next
  assume g: "DeviceRepositoryImpl_GetByID ident db = ((None, None), db1)"
  then have "repo_GetByID NewDeviceRepository ident db = ((None, None), db1)"
    by (simp add: NewDeviceRepository_methods)
  then show "devices (snd (DeviceService_TriggerAlarm NewDeviceRepository ident alarm db))
        = devices db"
    by (simp add: TriggerAlarm_absent GetByID_yields(2) [OF g])
qed

theorem C8_witness:
  "DeviceService_TriggerAlarm NewDeviceRepository 99 smoke_alarm no_devices
     = (Some (Errorf ''device not found with ID: 99''), no_devices)
   \<and> fst (DeviceService_TriggerAlarm mockRepo 99 smoke_alarm (newMock None None None))
       = Some (Errorf ''device not found with ID: 99'')
   \<and> triggerAlarmCalled
        (snd (DeviceService_TriggerAlarm mockRepo 99 smoke_alarm (newMock None None None)))
       = False
   \<and> getByIDCalled
        (snd (DeviceService_TriggerAlarm mockRepo 99 smoke_alarm (newMock None None None)))
       = True"
proof -
  let ?m = "newMock None None None"
  have st: "statement no_devices = (None, no_devices)"
    by (rule statement_empty_script) (simp add: no_devices_def)
  have row: "devices no_devices 99 = None"
    by (simp add: no_devices_def)
  have g: "repo_GetByID NewDeviceRepository 99 no_devices = ((None, None), no_devices)"
    by (simp add: NewDeviceRepository_methods GetByID_eq st row)
  have sql: "DeviceService_TriggerAlarm NewDeviceRepository 99 smoke_alarm no_devices
     = (Some (Errorf ''device not found with ID: 99''), no_devices)"
    using C8_TriggerAlarm_absent_device_no_write
            [THEN conjunct1, THEN mp, OF g, THEN conjunct1, of smoke_alarm]
    by (simp add: FormatInt_99)
  have absent: "getByIDOutput ?m = None \<and> getByIDError ?m = None"
    by (simp add: newMock_def)
  have mock: "fst (DeviceService_TriggerAlarm mockRepo 99 smoke_alarm ?m)
       = Some (Errorf ''device not found with ID: 99'')"
    "triggerAlarmCalled (snd (DeviceService_TriggerAlarm mockRepo 99 smoke_alarm ?m)) = False"
    using C8_TriggerAlarm_absent_device_no_write
            [THEN conjunct2, THEN conjunct1, THEN mp, OF absent, of 99 smoke_alarm]
    by (simp_all add: FormatInt_99 newMock_def)
  have mg: "repo_GetByID mockRepo 99 ?m
      = ((None, None), ?m\<lparr>getByIDCalled := True, getByIDInput := 99\<rparr>)"
    by (simp add: mockRepo_methods MockDeviceRepo_GetByID_def newMock_def)
  have called: "getByIDCalled (snd (DeviceService_TriggerAlarm mockRepo 99 smoke_alarm ?m)) = True"
    by (simp add: TriggerAlarm_absent [OF mg])
  from sql mock called show ?thesis by (intro conjI)
qed

text \<open>
  Claim C10.  When the lookup inside the service's TriggerAlarm returns an error, that
  same error is the result and the repository is handed back exactly as the lookup left
  it.  The alarm mutation is not called: the outcome is the same whatever that method
  is replaced by, the recording repository keeps its \<^verbatim>\<open>triggerAlarmCalled\<close> flag, and
  over the SQL repository a failing lookup statement leaves the table unchanged.
\<close>

theorem C10_TriggerAlarm_lookup_error_returned_unchanged:
  "(repo_GetByID repo ident r = ((device, Some err), r1) \<longrightarrow>
      DeviceService_TriggerAlarm repo ident alarm r = (Some err, r1)
      \<and> DeviceService_TriggerAlarm (repo\<lparr>repo_TriggerAlarm := mutation\<rparr>) ident alarm r
          = (Some err, r1))
   \<and> (getByIDError m = Some err \<longrightarrow>
      fst (DeviceService_TriggerAlarm mockRepo ident alarm m) = Some err
      \<and> triggerAlarmCalled (snd (DeviceService_TriggerAlarm mockRepo ident alarm m))
          = triggerAlarmCalled m)
   \<and> (fst (statement db) = Some msg \<longrightarrow>
      fst (DeviceService_TriggerAlarm NewDeviceRepository ident alarm db)
        = Some (StoreError msg)
      \<and> devices (snd (DeviceService_TriggerAlarm NewDeviceRepository ident alarm db))
          = devices db)"
proof (intro conjI impI)
  assume g: "repo_GetByID repo ident r = ((device, Some err), r1)"
  then show "DeviceService_TriggerAlarm repo ident alarm r = (Some err, r1)"
    by (rule TriggerAlarm_lookup_error)
  from g have "repo_GetByID (repo\<lparr>repo_TriggerAlarm := mutation\<rparr>) ident r
      = ((device, Some err), r1)"
    by simp
  then show "DeviceService_TriggerAlarm (repo\<lparr>repo_TriggerAlarm := mutation\<rparr>) ident alarm r
          = (Some err, r1)"
    by (rule TriggerAlarm_lookup_error)
next
  assume a: "getByIDError m = Some err"
  then have g: "repo_GetByID mockRepo ident m
      = ((getByIDOutput m, Some err), m\<lparr>getByIDCalled := True, getByIDInput := ident\<rparr>)"
    by (simp add: mockRepo_methods MockDeviceRepo_GetByID_def)
  show "fst (DeviceService_TriggerAlarm mockRepo ident alarm m) = Some err"
    by (simp add: TriggerAlarm_lookup_error [OF g])
  show "triggerAlarmCalled (snd (DeviceService_TriggerAlarm mockRepo ident alarm m))
          = triggerAlarmCalled m"
    by (simp add: TriggerAlarm_lookup_error [OF g])
next
  assume a: "fst (statement db) = Some msg"
  then have g: "repo_GetByID NewDeviceRepository ident db
      = ((None, Some (StoreError msg)), snd (statement db))"
    by (simp add: NewDeviceRepository_methods GetByID_eq)
  show "fst (DeviceService_TriggerAlarm NewDeviceRepository ident alarm db)
        = Some (StoreError msg)"
    by (simp add: TriggerAlarm_lookup_error [OF g])
  show "devices (snd (DeviceService_TriggerAlarm NewDeviceRepository ident alarm db))
          = devices db"
    by (simp add: TriggerAlarm_lookup_error [OF g] statement_keeps)
qed

theorem C10_witness:
  "fst (DeviceService_TriggerAlarm mockRepo 1 smoke_alarm
          (newMock None (Some (StoreError ''database error'')) None))
     = Some (StoreError ''database error'')
   \<and> triggerAlarmCalled (snd (DeviceService_TriggerAlarm mockRepo 1 smoke_alarm
          (newMock None (Some (StoreError ''database error'')) None))) = False
   \<and> fst (DeviceService_TriggerAlarm NewDeviceRepository 1 smoke_alarm
          (one_device\<lparr>script := [Some ''disk I/O error'']\<rparr>))
       = Some (StoreError ''disk I/O error'')
   \<and> devices (snd (DeviceService_TriggerAlarm NewDeviceRepository 1 smoke_alarm
          (one_device\<lparr>script := [Some ''disk I/O error'']\<rparr>))) 1
       = Some device_A"
proof -
  let ?m = "newMock None (Some (StoreError ''database error'')) None"
  let ?db = "one_device\<lparr>script := [Some ''disk I/O error'']\<rparr>"
  have e: "getByIDError ?m = Some (StoreError ''database error'')"
    by (simp add: newMock_def)
  have mock: "fst (DeviceService_TriggerAlarm mockRepo 1 smoke_alarm ?m)
     = Some (StoreError ''database error'')"
    "triggerAlarmCalled (snd (DeviceService_TriggerAlarm mockRepo 1 smoke_alarm ?m)) = False"
    using C10_TriggerAlarm_lookup_error_returned_unchanged
            [THEN conjunct2, THEN conjunct1, THEN mp, OF e, of 1 smoke_alarm]
    by (simp_all add: newMock_def)
  have st: "fst (statement ?db) = Some ''disk I/O error''"
    by (simp add: statement_def)
  have sql: "fst (DeviceService_TriggerAlarm NewDeviceRepository 1 smoke_alarm ?db)
       = Some (StoreError ''disk I/O error'')"
    "devices (snd (DeviceService_TriggerAlarm NewDeviceRepository 1 smoke_alarm ?db)) 1
       = Some device_A"
    using C10_TriggerAlarm_lookup_error_returned_unchanged
            [THEN conjunct2, THEN conjunct2, THEN mp, OF st, of 1 smoke_alarm]
    by (simp_all add: one_device_def)
  from mock sql show ?thesis by (intro conjI)
qed

end
